theory Spec2Isabelle
  imports Complex_Main "HOL-Library.Sublist"
begin

text \<open>
  A shallow embedding of the Coffee Corner LINE bot: the configuration check of
  \<open>config.py\<close> and the retrieval-augmented pipeline of \<open>app.py\<close>
  (\<open>search_knowledge\<close>, \<open>generate_response\<close>, \<open>_call_openrouter\<close>,
  \<open>process_message\<close>). A Python function that may raise returns \<open>exn + 'a\<close>, with
  \<open>Inl\<close> for the exception; a \<open>try\<close> block is a function of its own, and the function
  with the handler decides on its outcome. A \<open>print\<close> in the body of a function is a
  call that may raise like any other, also inside an exception handler.
\<close>

section \<open>Strings and exceptions\<close>

text \<open>
  A Python \<open>str\<close> is a sequence of Unicode code points. The replies of the bot are Thai
  text with emoji, so the text the pipeline handles is modelled as a list of code points
  (\<open>ustr\<close>). The names of environment variables, their values and the messages of
  exceptions are kept as \<open>string\<close>.
\<close>

type_synonym ustr = "nat list"

definition ascii :: "string \<Rightarrow> ustr" where
  "ascii s = map of_char s"

text \<open>The code points for which Python's \<open>str.isspace\<close> holds; \<open>str.strip()\<close> removes them.\<close>

definition isspace :: "nat \<Rightarrow> bool" where
  "isspace c \<longleftrightarrow> c \<in> set [9, 10, 11, 12, 13, 28, 29, 30, 31, 32, 133, 160, 5760,
      8192, 8193, 8194, 8195, 8196, 8197, 8198, 8199, 8200, 8201, 8202,
      8232, 8233, 8239, 8287, 12288]"

definition strip :: "ustr \<Rightarrow> ustr" where
  "strip s = rev (dropWhile isspace (rev (dropWhile isspace s)))"

text \<open>\<open>sep.join(xs)\<close>\<close>

fun join :: "'a list \<Rightarrow> 'a list list \<Rightarrow> 'a list" where
  "join sep [] = []"
| "join sep [x] = x"
| "join sep (x # y # ys) = x @ sep @ join sep (y # ys)"

text \<open>
  The exceptions of the model are instances of Python's \<open>Exception\<close>: the ones the
  interpreter raises on a bad subscript or attribute, the \<open>ValueError\<close> of the
  configuration check, and \<open>LibraryError\<close> for whatever an external library raises
  (a timeout, a connection or authentication failure, undecodable JSON).
\<close>

datatype exn =
    KeyError
  | IndexError
  | TypeError
  | AttributeError
  | ValueError string
  | LibraryError string

section \<open>config.py\<close>

text \<open>
  The class attributes of \<open>Config\<close>. The four secrets are what \<open>os.getenv\<close> returned
  when the class body ran: \<open>None\<close> for an unset variable, otherwise its value.
\<close>

record config =
  PINECONE_API_KEY :: "string option"
  OPENROUTER_API_KEY :: "string option"
  LINE_CHANNEL_ACCESS_TOKEN :: "string option"
  LINE_CHANNEL_SECRET :: "string option"

definition PINECONE_INDEX_NAME :: string where
  "PINECONE_INDEX_NAME = ''cafe-line-bot''"

definition EMBEDDING_DIMENSION :: nat where
  "EMBEDDING_DIMENSION = 384"

definition OPENROUTER_MODEL :: string where
  "OPENROUTER_MODEL = ''deepseek/deepseek-chat-v3.1:free''"

text \<open>Python's truth value of an \<open>Optional[str]\<close>: \<open>None\<close> and \<open>''\<close> are false.\<close>

fun truthy :: "string option \<Rightarrow> bool" where
  "truthy None = False"
| "truthy (Some s) = (s \<noteq> [])"

definition validate_config :: "config \<Rightarrow> exn + bool" where
  "validate_config cls =
     (let missing = [];
          missing = (if \<not> truthy (PINECONE_API_KEY cls)
                     then missing @ [''PINECONE_API_KEY''] else missing);
          missing = (if \<not> truthy (OPENROUTER_API_KEY cls)
                     then missing @ [''OPENROUTER_API_KEY''] else missing);
          missing = (if \<not> truthy (LINE_CHANNEL_ACCESS_TOKEN cls)
                     then missing @ [''LINE_CHANNEL_ACCESS_TOKEN''] else missing);
          missing = (if \<not> truthy (LINE_CHANNEL_SECRET cls)
                     then missing @ [''LINE_CHANNEL_SECRET''] else missing)
      in if missing \<noteq> []
         then Inl (ValueError (''Missing environment variables: '' @ join '', '' missing))
         else Inr True)"

section \<open>app.py: the data the pipeline handles\<close>

text \<open>
  What the vector index returns: \<open>results['matches']\<close> is a list of matches, each with
  a score and the metadata stored with the vector, which is \<open>None\<close> for a vector that
  was stored without any. \<open>match_score\<close> is \<open>match['score']\<close>.
\<close>

type_synonym vector = "real list"

record match =
  metadata :: "(ustr \<rightharpoonup> ustr) option"
  match_score :: real

record query_response =
  matches :: "match list"

text \<open>The dictionaries \<open>search_knowledge\<close> builds, with keys title, content and score.\<close>

record document =
  title :: ustr
  content :: ustr
  score :: real

text \<open>
  The value \<open>response.json()\<close> decodes to: \<open>None\<close>, a bool, a number, a \<open>str\<close>,
  a list or a dict whose keys are strings.
\<close>

datatype pyval =
    PNone
  | PBool bool
  | PInt int
  | PFloat real
  | PStr ustr
  | PList "pyval list"
  | PDict "(ustr \<times> pyval) list"

text \<open>
  A response of \<open>requests.post\<close>: its status code and what \<open>response.json()\<close> does,
  which raises when the body is not JSON.
\<close>

record response =
  status_code :: int
  json :: "exn + pyval"

record request =
  url :: string
  model :: string
  prompt :: ustr
  max_tokens :: nat
  temperature :: real
  authorization :: string
  timeout :: nat

text \<open>
  The dictionary \<open>process_message\<close> returns. The key sources is present in one of the
  three return statements only, so the field is optional.
\<close>

record rag_reply =
  reply :: ustr
  quick_replies :: "ustr list"
  sources :: "ustr list option"

section \<open>app.py: the external services\<close>

text \<open>
  The bot talks to three services: the sentence embedder, the vector index and the
  completion endpoint. Each call may raise, and each may change the world outside the
  program, of type \<open>'w\<close>; a service is a function from its argument and the world to
  its outcome and the new world. The state the pipeline threads through is the world
  and the list of calls made so far, in order.

  The three \<open>print\<close> calls of the pipeline write a line to standard output, and the
  write may raise: \<open>ValueError\<close> on a closed stream, \<open>UnicodeEncodeError\<close> on a
  line the stream cannot encode, such as one with a lone surrogate. A line is kept as
  the f-string it comes from with the value formatted into it. Standard output is the
  stream of the process itself and not one of the services: whether writing a line
  raises is a function of the line, the same throughout a run.
\<close>

datatype output_line =
    OpenRouter_Error int
  | LLM_Error exn
  | RAG_Error exn

datatype call =
    EncodeCall ustr
  | QueryCall vector nat
  | PostCall request
  | PrintCall output_line

record 'w services =
  encode :: "ustr \<Rightarrow> 'w \<Rightarrow> (exn + vector) \<times> 'w"
  query :: "vector \<Rightarrow> nat \<Rightarrow> 'w \<Rightarrow> (exn + query_response) \<times> 'w"
  post :: "request \<Rightarrow> 'w \<Rightarrow> (exn + response) \<times> 'w"
  stdout_write :: "output_line \<Rightarrow> exn + unit"

record 'w state =
  world :: 'w
  calls :: "call list"

text \<open>\<open>self.embedder.encode(query).tolist()\<close>\<close>

definition embedder_encode ::
  "'w services \<Rightarrow> ustr \<Rightarrow> 'w state \<Rightarrow> (exn + vector) \<times> 'w state" where
  "embedder_encode sv text st =
     (case encode sv text (world st) of
        (r, w) \<Rightarrow> (r, \<lparr>world = w, calls = calls st @ [EncodeCall text]\<rparr>))"

text \<open>\<open>self.index.query(vector=..., top_k=..., include_metadata=True)\<close>\<close>

definition index_query ::
  "'w services \<Rightarrow> vector \<Rightarrow> nat \<Rightarrow> 'w state \<Rightarrow> (exn + query_response) \<times> 'w state" where
  "index_query sv v top_k st =
     (case query sv v top_k (world st) of
        (r, w) \<Rightarrow> (r, \<lparr>world = w, calls = calls st @ [QueryCall v top_k]\<rparr>))"

text \<open>\<open>requests.post(url, json=..., headers=..., timeout=30)\<close>\<close>

definition requests_post ::
  "'w services \<Rightarrow> request \<Rightarrow> 'w state \<Rightarrow> (exn + response) \<times> 'w state" where
  "requests_post sv rq st =
     (case post sv rq (world st) of
        (r, w) \<Rightarrow> (r, \<lparr>world = w, calls = calls st @ [PostCall rq]\<rparr>))"

text \<open>\<open>print(f"...")\<close>\<close>

definition print_line ::
  "'w services \<Rightarrow> output_line \<Rightarrow> 'w state \<Rightarrow> (exn + unit) \<times> 'w state" where
  "print_line sv l st =
     (stdout_write sv l, \<lparr>world = world st, calls = calls st @ [PrintCall l]\<rparr>)"

section \<open>app.py: SimpleRAGBot\<close>

subsection \<open>search_knowledge\<close>

text \<open>\<open>d.get(key, '')\<close>\<close>

definition get_or_empty :: "(ustr \<rightharpoonup> ustr) \<Rightarrow> ustr \<Rightarrow> ustr" where
  "get_or_empty d k = (case d k of None \<Rightarrow> [] | Some v \<Rightarrow> v)"

text \<open>
  The loop over \<open>results['matches']\<close>, appending to \<open>documents\<close>. On a match whose
  metadata is \<open>None\<close>, \<open>.get\<close> raises AttributeError and the loop is left.
\<close>

fun append_documents :: "match list \<Rightarrow> document list \<Rightarrow> exn + document list" where
  "append_documents [] documents = Inr documents"
| "append_documents (m # ms) documents =
     (case metadata m of
        None \<Rightarrow> Inl AttributeError
      | Some md \<Rightarrow>
          append_documents ms
            (documents @ [\<lparr>title = get_or_empty md (ascii ''title''),
                           content = get_or_empty md (ascii ''content''),
                           score = match_score m\<rparr>]))"

definition search_knowledge ::
  "'w services \<Rightarrow> ustr \<Rightarrow> nat \<Rightarrow> 'w state \<Rightarrow> (exn + document list) \<times> 'w state" where
  "search_knowledge sv query_text top_k st =
     (case embedder_encode sv query_text st of
        (Inl e, st1) \<Rightarrow> (Inl e, st1)
      | (Inr query_vector, st1) \<Rightarrow>
          (case index_query sv query_vector top_k st1 of
             (Inl e, st2) \<Rightarrow> (Inl e, st2)
           | (Inr results, st2) \<Rightarrow> (append_documents (matches results) [], st2)))"

subsection \<open>generate_response\<close>

definition render_document :: "document \<Rightarrow> ustr" where
  "render_document doc = [128196, 32] @ title doc @ [58, 32] @ content doc"

definition PROMPT_RULES :: ustr where
  "PROMPT_RULES =
    [3588, 3640, 3603, 3588, 3639, 3629, 3612, 3641, 3657, 3594, 3656, 3623, 3618, 3586,
     3629, 3591, 3619, 3657, 3634, 3609, 3585, 3634, 3649, 3615, 32, 34, 67, 111, 102, 102,
     101, 101, 32, 67, 111, 114, 110, 101, 114, 34, 32, 127978, 10, 10, 3585, 3598, 3585,
     3634, 3619, 3605, 3629, 3610, 58, 10, 45, 32, 3605, 3629, 3610, 3648, 3611, 3655, 3609,
     3616, 3634, 3625, 3634, 3652, 3607, 3618, 3649, 3621, 3632, 3651, 3626, 3656, 3629,
     3637, 3650, 3617, 3592, 3636, 10, 45, 32, 3651, 3594, 3657, 3586, 3657, 3629, 3617,
     3641, 3621, 3607, 3637, 3656, 3651, 3627, 3657, 3617, 3634, 3648, 3607, 3656, 3634,
     3609, 3633, 3657, 3609, 10, 45, 32, 3605, 3629, 3610, 3626, 3633, 3657, 3609, 32, 3648,
     3627, 3617, 3634, 3632, 3626, 3635, 3627, 3619, 3633, 3610, 32, 76, 73, 78, 69, 32, 99,
     104, 97, 116, 10, 45, 32, 3651, 3626, 3656, 3619, 3634, 3588, 3634, 3594, 3633, 3604,
     3648, 3592, 3609, 10, 45, 32, 3652, 3617, 3656, 3605, 3629, 3610, 3648, 3611, 3655,
     3609, 32, 109, 97, 114, 107, 100, 111, 119, 110, 32, 102, 111, 114, 109, 97, 116, 10,
     10, 3586, 3657, 3629, 3617, 3641, 3621, 3619, 3657, 3634, 3609, 58, 10]"

definition PROMPT_QUESTION :: ustr where
  "PROMPT_QUESTION = [10, 10, 3588, 3635, 3606, 3634, 3617, 58, 32]"

definition PROMPT_ANSWER :: ustr where
  "PROMPT_ANSWER = [10, 3605, 3629, 3610, 58]"

definition build_prompt :: "ustr \<Rightarrow> document list \<Rightarrow> ustr" where
  "build_prompt query_text context_docs =
     (let context = join [10] (map render_document context_docs)
      in PROMPT_RULES @ context @ PROMPT_QUESTION @ query_text @ PROMPT_ANSWER)"

subsection \<open>_call_openrouter\<close>

text \<open>The two strings \<open>_call_openrouter\<close> returns in place of an answer.\<close>

definition HTTP_ERROR_TEXT :: ustr where
  "HTTP_ERROR_TEXT =
    [3586, 3629, 3629, 3616, 3633, 3618, 3588, 3656, 3632, 32, 3619, 3632, 3610, 3610, 3617,
     3637, 3611, 3633, 3597, 3627, 3634, 32, 3585, 3619, 3640, 3603, 3634, 3621, 3629, 3591,
     3651, 3627, 3617, 3656, 3588, 3656, 3632, 32, 128591]"

definition LLM_ERROR_TEXT :: ustr where
  "LLM_ERROR_TEXT =
    [3586, 3629, 3629, 3616, 3633, 3618, 3588, 3656, 3632, 32, 3652, 3617, 3656, 3626, 3634,
     3617, 3634, 3619, 3606, 3605, 3629, 3610, 3652, 3604, 3657, 32, 3585, 3619, 3640, 3603,
     3634, 3605, 3636, 3604, 3605, 3656, 3629, 3619, 3657, 3634, 3609, 3588, 3656, 3632, 32,
     128222]"

text \<open>Subscripting a decoded value with a string key, with \<open>0\<close>, and calling \<open>.strip()\<close>.\<close>

fun getitem_str :: "pyval \<Rightarrow> ustr \<Rightarrow> exn + pyval" where
  "getitem_str (PDict d) k = (case map_of d k of None \<Rightarrow> Inl KeyError | Some v \<Rightarrow> Inr v)"
| "getitem_str _ k = Inl TypeError"

fun getitem_0 :: "pyval \<Rightarrow> exn + pyval" where
  "getitem_0 (PList []) = Inl IndexError"
| "getitem_0 (PList (x # xs)) = Inr x"
| "getitem_0 (PStr []) = Inl IndexError"
| "getitem_0 (PStr (c # cs)) = Inr (PStr [c])"
| "getitem_0 (PDict d) = Inl KeyError"
| "getitem_0 _ = Inl TypeError"

fun str_strip :: "pyval \<Rightarrow> exn + ustr" where
  "str_strip (PStr s) = Inr (strip s)"
| "str_strip _ = Inl AttributeError"

definition and_then :: "exn + 'a \<Rightarrow> ('a \<Rightarrow> exn + 'b) \<Rightarrow> exn + 'b" where
  "and_then r f = (case r of Inl e \<Rightarrow> Inl e | Inr x \<Rightarrow> f x)"

text \<open>\<open>response.json()\<close> and then \<open>result['choices'][0]['message']['content'].strip()\<close>\<close>

definition message_content :: "response \<Rightarrow> exn + ustr" where
  "message_content resp =
     and_then (json resp) (\<lambda>result.
     and_then (getitem_str result (ascii ''choices'')) (\<lambda>choices.
     and_then (getitem_0 choices) (\<lambda>choice.
     and_then (getitem_str choice (ascii ''message'')) (\<lambda>message.
     and_then (getitem_str message (ascii ''content'')) str_strip))))"

text \<open>An f-string renders \<open>None\<close> as the text None.\<close>

definition openrouter_request :: "config \<Rightarrow> ustr \<Rightarrow> request" where
  "openrouter_request cfg p =
     \<lparr>url = ''https://openrouter.ai/api/v1/chat/completions'',
      model = OPENROUTER_MODEL,
      prompt = p,
      max_tokens = 1000,
      temperature = 3 / 10,
      authorization =
        ''Bearer '' @ (case OPENROUTER_API_KEY cfg of None \<Rightarrow> ''None'' | Some k \<Rightarrow> k),
      timeout = 30\<rparr>"

text \<open>
  The body of the \<open>try\<close> block. In the \<open>else\<close> branch the status is printed before
  the fixed text is returned; an exception of that \<open>print\<close> is raised inside the
  \<open>try\<close>.
\<close>

definition call_openrouter_try ::
  "config \<Rightarrow> 'w services \<Rightarrow> ustr \<Rightarrow> 'w state \<Rightarrow> (exn + ustr) \<times> 'w state" where
  "call_openrouter_try cfg sv p st =
     (case requests_post sv (openrouter_request cfg p) st of
        (Inl e, st1) \<Rightarrow> (Inl e, st1)
      | (Inr resp, st1) \<Rightarrow>
          if status_code resp = 200 then (message_content resp, st1)
          else
            (case print_line sv (OpenRouter_Error (status_code resp)) st1 of
               (Inl e, st2) \<Rightarrow> (Inl e, st2)
             | (Inr u, st2) \<Rightarrow> (Inr HTTP_ERROR_TEXT, st2)))"

text \<open>
  The \<open>try\<close> block with its handler \<open>except Exception\<close>. The handler prints the
  exception and then returns the fixed text; an exception of that \<open>print\<close> leaves
  the function.
\<close>

definition call_openrouter ::
  "config \<Rightarrow> 'w services \<Rightarrow> ustr \<Rightarrow> 'w state \<Rightarrow> (exn + ustr) \<times> 'w state" where
  "call_openrouter cfg sv p st =
     (case call_openrouter_try cfg sv p st of
        (Inl e, st1) \<Rightarrow>
          (case print_line sv (LLM_Error e) st1 of
             (Inl e', st2) \<Rightarrow> (Inl e', st2)
           | (Inr u, st2) \<Rightarrow> (Inr LLM_ERROR_TEXT, st2))
      | (Inr answer, st1) \<Rightarrow> (Inr answer, st1))"

definition generate_response ::
  "config \<Rightarrow> 'w services \<Rightarrow> ustr \<Rightarrow> document list \<Rightarrow> 'w state \<Rightarrow> (exn + ustr) \<times> 'w state" where
  "generate_response cfg sv query_text context_docs st =
     call_openrouter cfg sv (build_prompt query_text context_docs) st"

subsection \<open>process_message\<close>

definition NO_KNOWLEDGE_TEXT :: ustr where
  "NO_KNOWLEDGE_TEXT =
    [3586, 3629, 3629, 3616, 3633, 3618, 3588, 3656, 3632, 32, 3652, 3617, 3656, 3614, 3610,
     3586, 3657, 3629, 3617, 3641, 3621, 32, 3585, 3619, 3640, 3603, 3634, 3605, 3636, 3604,
     3605, 3656, 3629, 3619, 3657, 3634, 3609, 32, 76, 73, 78, 69, 32, 64, 99, 111, 102, 102,
     101, 101, 99, 111, 114, 110, 101, 114, 32, 3588, 3656, 3632, 32, 128222]"

definition PIPELINE_ERROR_TEXT :: ustr where
  "PIPELINE_ERROR_TEXT =
    [3586, 3629, 3629, 3616, 3633, 3618, 3588, 3656, 3632, 32, 3648, 3585, 3636, 3604, 3586,
     3657, 3629, 3612, 3636, 3604, 3614, 3621, 3634, 3604, 32, 3585, 3619, 3640, 3603, 3634,
     3621, 3629, 3591, 3651, 3627, 3617, 3656, 3588, 3656, 3632, 32, 128591]"

text \<open>The text that replaces an answer that is blank after \<open>strip()\<close>.\<close>

definition EMPTY_ANSWER_TEXT :: ustr where
  "EMPTY_ANSWER_TEXT =
    [3586, 3629, 3629, 3616, 3633, 3618, 3588, 3656, 3632, 32, 3652, 3617, 3656, 3626, 3634,
     3617, 3634, 3619, 3606, 3605, 3629, 3610, 3652, 3604, 3657, 32, 3585, 3619, 3640, 3603,
     3634, 3605, 3636, 3604, 3605, 3656, 3629, 3619, 3657, 3634, 3609, 3588, 3656, 3632, 32,
     128222]"

definition MENU_DRINKS :: ustr where
  "MENU_DRINKS =
    [9749, 32, 3648, 3617, 3609, 3641, 3648, 3588, 3619, 3639, 3656, 3629, 3591, 3604, 3639,
     3656, 3617]"

definition MENU_FOOD :: ustr where
  "MENU_FOOD = [127829, 32, 3648, 3617, 3609, 3641, 3629, 3634, 3627, 3634, 3619]"

definition OPENING_HOURS :: ustr where
  "OPENING_HOURS =
    [128336, 32, 3648, 3623, 3621, 3634, 3648, 3611, 3636, 3604, 45, 3611, 3636, 3604]"

definition ADDRESS :: ustr where
  "ADDRESS = [128205, 32, 3607, 3637, 3656, 3629, 3618, 3641, 3656]"

definition MENU :: ustr where
  "MENU = [9749, 32, 3648, 3617, 3609, 3641]"

definition CONTACT :: ustr where
  "CONTACT = [128222, 32, 3605, 3636, 3604, 3605, 3656, 3629, 3619, 3657, 3634, 3609]"

definition NO_KNOWLEDGE_REPLY :: rag_reply where
  "NO_KNOWLEDGE_REPLY =
     \<lparr>reply = NO_KNOWLEDGE_TEXT,
      quick_replies = [MENU_DRINKS, OPENING_HOURS],
      sources = None\<rparr>"

definition PIPELINE_ERROR_REPLY :: rag_reply where
  "PIPELINE_ERROR_REPLY =
     \<lparr>reply = PIPELINE_ERROR_TEXT,
      quick_replies = [MENU, CONTACT],
      sources = None\<rparr>"

text \<open>The body of the \<open>try\<close> block; \<open>search_knowledge\<close> is called with its default \<open>top_k=4\<close>.\<close>

definition process_message_try ::
  "config \<Rightarrow> 'w services \<Rightarrow> ustr \<Rightarrow> 'w state \<Rightarrow> (exn + rag_reply) \<times> 'w state" where
  "process_message_try cfg sv user_message st =
     (case search_knowledge sv user_message 4 st of
        (Inl e, st1) \<Rightarrow> (Inl e, st1)
      | (Inr documents, st1) \<Rightarrow>
          if documents = [] then (Inr NO_KNOWLEDGE_REPLY, st1)
          else
            (case generate_response cfg sv user_message documents st1 of
               (Inl e, st2) \<Rightarrow> (Inl e, st2)
             | (Inr answer, st2) \<Rightarrow>
                 (let answer = (if strip answer = [] then EMPTY_ANSWER_TEXT else answer)
                  in (Inr \<lparr>reply = answer,
                           quick_replies = [MENU_DRINKS, MENU_FOOD, OPENING_HOURS, ADDRESS],
                           sources = Some (map title (take 2 documents))\<rparr>, st2))))"

text \<open>
  The \<open>try\<close> block with its handler \<open>except Exception\<close>. The handler prints the
  exception and then returns the fixed reply; an exception of that \<open>print\<close> leaves
  the function.
\<close>

definition process_message ::
  "config \<Rightarrow> 'w services \<Rightarrow> ustr \<Rightarrow> 'w state \<Rightarrow> (exn + rag_reply) \<times> 'w state" where
  "process_message cfg sv user_message st =
     (case process_message_try cfg sv user_message st of
        (Inl e, st1) \<Rightarrow>
          (case print_line sv (RAG_Error e) st1 of
             (Inl e', st2) \<Rightarrow> (Inl e', st2)
           | (Inr u, st2) \<Rightarrow> (Inr PIPELINE_ERROR_REPLY, st2))
      | (Inr r, st1) \<Rightarrow> (Inr r, st1))"

section \<open>Test doubles\<close>

text \<open>
  A test double for the three services: each returns a fixed outcome, given when the
  double is built, whatever its argument, and the world is a counter of the calls the
  services have received. Standard output accepts every line.
\<close>

definition test_double ::
  "(exn + vector) \<Rightarrow> (exn + query_response) \<Rightarrow> (exn + response) \<Rightarrow> nat services" where
  "test_double e q p =
     \<lparr>encode = (\<lambda>text w. (e, Suc w)),
      query = (\<lambda>v top_k w. (q, Suc w)),
      post = (\<lambda>rq w. (p, Suc w)),
      stdout_write = (\<lambda>l. Inr ())\<rparr>"

text \<open>The same services with standard output closed: every \<open>print\<close> raises.\<close>

definition closed_stdout :: "nat services \<Rightarrow> nat services" where
  "closed_stdout sv =
     sv\<lparr>stdout_write := (\<lambda>l. Inl (ValueError ''I/O operation on closed file''))\<rparr>"

definition initial_state :: "nat state" where
  "initial_state = \<lparr>world = 0, calls = []\<rparr>"

definition example_config :: config where
  "example_config =
     \<lparr>PINECONE_API_KEY = Some ''pc-key'',
      OPENROUTER_API_KEY = Some ''or-key'',
      LINE_CHANNEL_ACCESS_TOKEN = Some ''line-token'',
      LINE_CHANNEL_SECRET = Some ''line-secret''\<rparr>"

text \<open>The question about the price of a latte, from \<open>test_rag\<close>.\<close>

definition latte_question :: ustr where
  "latte_question =
    [3619, 3634, 3588, 3634, 3621, 3634, 3648, 3605, 3657, 3648, 3607, 3656, 3634, 3652,
     3619, 63]"

definition example_vector :: vector where
  "example_vector = [1 / 2, 1 / 4]"

text \<open>A match as \<open>setup.py\<close> stores documents: metadata with a title and a content.\<close>

definition stored_match :: "string \<Rightarrow> string \<Rightarrow> match" where
  "stored_match t c =
     \<lparr>metadata = Some [ascii ''title'' \<mapsto> ascii t, ascii ''content'' \<mapsto> ascii c],
      match_score = 9 / 10\<rparr>"

definition three_matches :: query_response where
  "three_matches =
     \<lparr>matches = [stored_match ''Latte'' ''45 baht'',
                 stored_match ''Mocha'' ''55 baht'',
                 stored_match ''Hours'' ''8-20''] \<rparr>"

definition no_matches :: query_response where
  "no_matches = \<lparr>matches = []\<rparr>"

text \<open>A completion as the endpoint sends it, with the given text as the message content.\<close>

definition completion :: "int \<Rightarrow> ustr \<Rightarrow> response" where
  "completion code s =
     \<lparr>status_code = code,
      json = Inr (PDict [(ascii ''choices'',
               PList [PDict [(ascii ''message'',
                 PDict [(ascii ''content'', PStr s)])]])])\<rparr>"

text \<open>The counter of calls of the completion endpoint in a list of calls.\<close>

fun is_post :: "call \<Rightarrow> bool" where
  "is_post (PostCall rq) = True"
| "is_post _ = False"

definition post_count :: "call list \<Rightarrow> nat" where
  "post_count cs = length (filter is_post cs)"

section \<open>Properties of config.py\<close>

subsection \<open>The message names what it joins\<close>

lemma sublist_join:
  "x \<in> set xs \<Longrightarrow> sublist x (join sep xs)"
proof (induction sep xs rule: join.induct)
  case (1 sep)
  then show ?case by simp
next
  case (2 sep y)
  then show ?case by simp
next
  case (3 sep y z zs)
  show ?case
  proof (cases "x = y")
    case True
    then show ?thesis by (simp add: sublist_append)
  next
    case False
    with 3 have "sublist x (join sep (z # zs))" by simp
    then show ?thesis by (simp add: sublist_append)
  qed
qed

lemma sublist_message:
  "x \<in> set xs \<Longrightarrow> sublist x (p @ join sep xs)"
  using sublist_join [of x xs sep] by (simp add: sublist_append)

subsection \<open>validate_config\<close>

lemma not_truthy_iff: "\<not> truthy v \<longleftrightarrow> v \<in> {None, Some []}"
  by (cases v) auto

lemma validate_config_missing:
  "validate_config cfg =
     (let missing =
            (if truthy (PINECONE_API_KEY cfg) then [] else [''PINECONE_API_KEY'']) @
            (if truthy (OPENROUTER_API_KEY cfg) then [] else [''OPENROUTER_API_KEY'']) @
            (if truthy (LINE_CHANNEL_ACCESS_TOKEN cfg) then [] else [''LINE_CHANNEL_ACCESS_TOKEN'']) @
            (if truthy (LINE_CHANNEL_SECRET cfg) then [] else [''LINE_CHANNEL_SECRET''])
      in if missing \<noteq> []
         then Inl (ValueError (''Missing environment variables: '' @ join '', '' missing))
         else Inr True)"
  by (simp add: validate_config_def Let_def)

text \<open>
  C8, amended. \<open>validate_config\<close> returns \<open>True\<close> or raises a \<open>ValueError\<close>
  whose message contains the name of every required secret that is unset or set to the
  empty string; and it raises if and only if at least one of the four required secrets
  is unset or set to the empty string. In \<open>app.py\<close> the call is the first statement
  after the imports, before the Flask application is created.
\<close>

theorem validate_config_raises_iff_unset_or_empty:
  "(validate_config cfg = Inr True \<or>
    (\<exists>msg. validate_config cfg = Inl (ValueError msg) \<and>
       (PINECONE_API_KEY cfg \<in> {None, Some []} \<longrightarrow> sublist ''PINECONE_API_KEY'' msg) \<and>
       (OPENROUTER_API_KEY cfg \<in> {None, Some []} \<longrightarrow> sublist ''OPENROUTER_API_KEY'' msg) \<and>
       (LINE_CHANNEL_ACCESS_TOKEN cfg \<in> {None, Some []} \<longrightarrow>
          sublist ''LINE_CHANNEL_ACCESS_TOKEN'' msg) \<and>
       (LINE_CHANNEL_SECRET cfg \<in> {None, Some []} \<longrightarrow> sublist ''LINE_CHANNEL_SECRET'' msg))) \<and>
   ((\<exists>e. validate_config cfg = Inl e) \<longleftrightarrow>
      PINECONE_API_KEY cfg \<in> {None, Some []} \<or>
      OPENROUTER_API_KEY cfg \<in> {None, Some []} \<or>
      LINE_CHANNEL_ACCESS_TOKEN cfg \<in> {None, Some []} \<or>
      LINE_CHANNEL_SECRET cfg \<in> {None, Some []})"
proof -
  define missing where "missing =
            (if truthy (PINECONE_API_KEY cfg) then [] else [''PINECONE_API_KEY'']) @
            (if truthy (OPENROUTER_API_KEY cfg) then [] else [''OPENROUTER_API_KEY'']) @
            (if truthy (LINE_CHANNEL_ACCESS_TOKEN cfg) then [] else [''LINE_CHANNEL_ACCESS_TOKEN'']) @
            (if truthy (LINE_CHANNEL_SECRET cfg) then [] else [''LINE_CHANNEL_SECRET''])"
  define msg where "msg = ''Missing environment variables: '' @ join '', '' missing"
  have vc: "validate_config cfg = (if missing \<noteq> [] then Inl (ValueError msg) else Inr True)"
    by (simp add: validate_config_missing missing_def msg_def Let_def)
  have named: "sublist x msg" if "x \<in> set missing" for x
    unfolding msg_def using that by (rule sublist_message)
  have m1: "PINECONE_API_KEY cfg \<in> {None, Some []} \<Longrightarrow> ''PINECONE_API_KEY'' \<in> set missing"
    and m2: "OPENROUTER_API_KEY cfg \<in> {None, Some []} \<Longrightarrow> ''OPENROUTER_API_KEY'' \<in> set missing"
    and m3: "LINE_CHANNEL_ACCESS_TOKEN cfg \<in> {None, Some []} \<Longrightarrow>
               ''LINE_CHANNEL_ACCESS_TOKEN'' \<in> set missing"
    and m4: "LINE_CHANNEL_SECRET cfg \<in> {None, Some []} \<Longrightarrow> ''LINE_CHANNEL_SECRET'' \<in> set missing"
    unfolding missing_def not_truthy_iff [symmetric] by simp_all
  have empty: "missing = [] \<longleftrightarrow>
      \<not> (PINECONE_API_KEY cfg \<in> {None, Some []} \<or>
      OPENROUTER_API_KEY cfg \<in> {None, Some []} \<or>
      LINE_CHANNEL_ACCESS_TOKEN cfg \<in> {None, Some []} \<or>
      LINE_CHANNEL_SECRET cfg \<in> {None, Some []})"
    unfolding missing_def not_truthy_iff [symmetric] by simp
  show ?thesis
  proof (cases "missing = []")
    case True
    with vc empty show ?thesis by simp
  next
    case False
    with vc have "validate_config cfg = Inl (ValueError msg)" by simp
    with False empty m1 m2 m3 m4 named show ?thesis by blast
  qed
qed

text \<open>
  C8 at a concrete configuration: one secret unset and one empty, both named in the
  message; the complete configuration passes.
\<close>

theorem validate_config_raises_witness:
  "validate_config (example_config\<lparr>OPENROUTER_API_KEY := None, LINE_CHANNEL_SECRET := Some []\<rparr>) =
     Inl (ValueError ''Missing environment variables: OPENROUTER_API_KEY, LINE_CHANNEL_SECRET'') \<and>
   sublist ''OPENROUTER_API_KEY''
     ''Missing environment variables: OPENROUTER_API_KEY, LINE_CHANNEL_SECRET'' \<and>
   sublist ''LINE_CHANNEL_SECRET''
     ''Missing environment variables: OPENROUTER_API_KEY, LINE_CHANNEL_SECRET'' \<and>
   validate_config example_config = Inr True"
  using validate_config_raises_iff_unset_or_empty
    [of "example_config\<lparr>OPENROUTER_API_KEY := None, LINE_CHANNEL_SECRET := Some []\<rparr>"]
  by (simp add: validate_config_def example_config_def)

text \<open>
  C8 as stated ("fails if and only if a secret is absent") does not hold: with all four
  variables set, one of them to the empty string, validation raises.
\<close>

theorem validate_config_empty_secret_counterexample:
  "validate_config (example_config\<lparr>PINECONE_API_KEY := Some ''''\<rparr>) =
     Inl (ValueError ''Missing environment variables: PINECONE_API_KEY'') \<and>
   PINECONE_API_KEY (example_config\<lparr>PINECONE_API_KEY := Some ''''\<rparr>) \<noteq> None \<and>
   OPENROUTER_API_KEY (example_config\<lparr>PINECONE_API_KEY := Some ''''\<rparr>) \<noteq> None \<and>
   LINE_CHANNEL_ACCESS_TOKEN (example_config\<lparr>PINECONE_API_KEY := Some ''''\<rparr>) \<noteq> None \<and>
   LINE_CHANNEL_SECRET (example_config\<lparr>PINECONE_API_KEY := Some ''''\<rparr>) \<noteq> None"
  by (simp add: validate_config_def example_config_def)

section \<open>Properties of app.py\<close>

subsection \<open>The fixed texts\<close>

lemma strip_unchanged:
  assumes "s \<noteq> []" and "\<not> isspace (hd s)" and "\<not> isspace (last s)"
  shows "strip s = s"
proof -
  from assms(1) obtain x xs where s: "s = x # xs" by (cases s) auto
  with assms(2) have front: "dropWhile isspace s = s" by simp
  from assms(1) have "rev s \<noteq> []" by simp
  then obtain y ys where r: "rev s = y # ys" by (cases "rev s") auto
  from assms(1) have "hd (rev s) = last s" by (simp add: hd_rev)
  with assms(3) r have "dropWhile isspace (rev s) = rev s" by simp
  with front show ?thesis by (simp add: strip_def)
qed

lemma strip_HTTP_ERROR_TEXT: "strip HTTP_ERROR_TEXT = HTTP_ERROR_TEXT"
  by (rule strip_unchanged) (simp_all add: HTTP_ERROR_TEXT_def isspace_def)

lemma strip_LLM_ERROR_TEXT: "strip LLM_ERROR_TEXT = LLM_ERROR_TEXT"
  by (rule strip_unchanged) (simp_all add: LLM_ERROR_TEXT_def isspace_def)

lemma EMPTY_ANSWER_TEXT_eq: "EMPTY_ANSWER_TEXT = LLM_ERROR_TEXT"
  by (simp add: EMPTY_ANSWER_TEXT_def LLM_ERROR_TEXT_def)

lemma texts_nonempty:
  "HTTP_ERROR_TEXT \<noteq> []" "LLM_ERROR_TEXT \<noteq> []" "EMPTY_ANSWER_TEXT \<noteq> []"
  "NO_KNOWLEDGE_TEXT \<noteq> []" "PIPELINE_ERROR_TEXT \<noteq> []"
  by (simp_all add: HTTP_ERROR_TEXT_def LLM_ERROR_TEXT_def EMPTY_ANSWER_TEXT_def
      NO_KNOWLEDGE_TEXT_def PIPELINE_ERROR_TEXT_def)

lemma texts_distinct:
  "distinct [NO_KNOWLEDGE_TEXT, PIPELINE_ERROR_TEXT, LLM_ERROR_TEXT, HTTP_ERROR_TEXT]"
  by (simp add: HTTP_ERROR_TEXT_def LLM_ERROR_TEXT_def NO_KNOWLEDGE_TEXT_def
      PIPELINE_ERROR_TEXT_def)

subsection \<open>The calls a step makes\<close>

lemma embedder_encode_calls:
  "embedder_encode sv t st = (r, st1) \<Longrightarrow> calls st1 = calls st @ [EncodeCall t]"
  by (auto simp: embedder_encode_def split: prod.splits)

lemma index_query_calls:
  "index_query sv v k st = (r, st1) \<Longrightarrow> calls st1 = calls st @ [QueryCall v k]"
  by (auto simp: index_query_def split: prod.splits)

lemma print_line_eq:
  "print_line sv l st = (r, st1) \<longleftrightarrow>
     r = stdout_write sv l \<and> st1 = \<lparr>world = world st, calls = calls st @ [PrintCall l]\<rparr>"
  by (auto simp: print_line_def)

subsection \<open>search_knowledge by the outcome of its two calls\<close>

lemma search_knowledge_encode_raised:
  "embedder_encode sv m st = (Inl e, st1) \<Longrightarrow> search_knowledge sv m k st = (Inl e, st1)"
  by (simp add: search_knowledge_def)

lemma search_knowledge_query_raised:
  "embedder_encode sv m st = (Inr v, st1) \<Longrightarrow> index_query sv v k st1 = (Inl e, st2) \<Longrightarrow>
   search_knowledge sv m k st = (Inl e, st2)"
  by (simp add: search_knowledge_def)

lemma search_knowledge_query_returned:
  "embedder_encode sv m st = (Inr v, st1) \<Longrightarrow> index_query sv v k st1 = (Inr results, st2) \<Longrightarrow>
   search_knowledge sv m k st = (append_documents (matches results) [], st2)"
  by (simp add: search_knowledge_def)

subsection \<open>_call_openrouter by the outcome of the request\<close>

lemma call_openrouter_answer:
  "requests_post sv (openrouter_request cfg p) st = (Inr resp, st1) \<Longrightarrow>
   status_code resp = 200 \<Longrightarrow> message_content resp = Inr a \<Longrightarrow>
   call_openrouter cfg sv p st = (Inr a, st1)"
  by (simp add: call_openrouter_def call_openrouter_try_def)

text \<open>What \<open>_call_openrouter\<close> returns, when it returns.\<close>

lemma call_openrouter_returned:
  assumes "call_openrouter cfg sv p st = (Inr a, st1)"
  shows "a = LLM_ERROR_TEXT \<or> a = HTTP_ERROR_TEXT \<or>
     (\<exists>resp. requests_post sv (openrouter_request cfg p) st = (Inr resp, st1) \<and>
        status_code resp = 200 \<and> message_content resp = Inr a)"
  using assms
  by (auto simp: call_openrouter_def call_openrouter_try_def print_line_def
      split: prod.splits sum.splits if_splits)

text \<open>With a standard output that accepts every line, \<open>_call_openrouter\<close> returns.\<close>

lemma call_openrouter_returns:
  assumes "\<And>l. stdout_write sv l = Inr ()"
  shows "\<exists>a st1. call_openrouter cfg sv p st = (Inr a, st1)"
  using assms
  by (auto simp: call_openrouter_def call_openrouter_try_def print_line_def
      split: prod.splits sum.splits if_splits)

subsection \<open>process_message by the outcome of search_knowledge\<close>

lemma process_message_no_documents:
  "search_knowledge sv m 4 st = (Inr [], st1) \<Longrightarrow>
   process_message cfg sv m st = (Inr NO_KNOWLEDGE_REPLY, st1)"
  by (simp add: process_message_def process_message_try_def)

lemma process_message_documents:
  assumes "search_knowledge sv m 4 st = (Inr docs, st1)" and "docs \<noteq> []"
    and "generate_response cfg sv m docs st1 = (Inr answer, st2)"
  shows "process_message cfg sv m st =
     (Inr \<lparr>reply = (if strip answer = [] then EMPTY_ANSWER_TEXT else answer),
           quick_replies = [MENU_DRINKS, MENU_FOOD, OPENING_HOURS, ADDRESS],
           sources = Some (map title (take 2 docs))\<rparr>, st2)"
  using assms by (simp add: process_message_def process_message_try_def)

lemma process_message_try_raised:
  "process_message_try cfg sv m st = (Inl e, st1) \<Longrightarrow>
   process_message cfg sv m st =
     (case stdout_write sv (RAG_Error e) of
        Inl e' \<Rightarrow> Inl e'
      | Inr u \<Rightarrow> Inr PIPELINE_ERROR_REPLY,
      \<lparr>world = world st1, calls = calls st1 @ [PrintCall (RAG_Error e)]\<rparr>)"
  by (simp add: process_message_def print_line_def split: sum.splits)

text \<open>What the body of the \<open>try\<close> block returns, when it returns.\<close>

lemma process_message_try_returned:
  assumes "process_message_try cfg sv m st = (Inr r, st1)"
  shows "(search_knowledge sv m 4 st = (Inr [], st1) \<and> r = NO_KNOWLEDGE_REPLY) \<or>
     (\<exists>docs st2 answer.
        search_knowledge sv m 4 st = (Inr docs, st2) \<and> docs \<noteq> [] \<and>
        generate_response cfg sv m docs st2 = (Inr answer, st1) \<and>
        r = \<lparr>reply = (if strip answer = [] then EMPTY_ANSWER_TEXT else answer),
              quick_replies = [MENU_DRINKS, MENU_FOOD, OPENING_HOURS, ADDRESS],
              sources = Some (map title (take 2 docs))\<rparr>)"
  using assms
  by (auto simp: process_message_try_def Let_def split: prod.splits sum.splits if_splits)

text \<open>What \<open>process_message\<close> returns, when it returns.\<close>

lemma process_message_returned:
  assumes "process_message cfg sv m st = (Inr r, st1)"
  shows "process_message_try cfg sv m st = (Inr r, st1) \<or>
     (\<exists>e st0. process_message_try cfg sv m st = (Inl e, st0) \<and>
        stdout_write sv (RAG_Error e) = Inr () \<and> r = PIPELINE_ERROR_REPLY)"
  using assms
  by (auto simp: process_message_def print_line_def split: prod.splits sum.splits)

text \<open>
  With a standard output that accepts every line, \<open>process_message\<close> returns a reply
  for every message.
\<close>

lemma process_message_returns:
  assumes "\<And>l. stdout_write sv l = Inr ()"
  shows "\<exists>r st1. process_message cfg sv m st = (Inr r, st1)"
proof -
  obtain out st1 where t: "process_message_try cfg sv m st = (out, st1)"
    by (cases "process_message_try cfg sv m st")
  show ?thesis
  proof (cases out)
    case (Inl e)
    with t assms show ?thesis by (simp add: process_message_try_raised)
  next
    case (Inr r)
    with t show ?thesis by (simp add: process_message_def)
  qed
qed

subsection \<open>Runs against the test doubles\<close>

lemma test_double_post: "post (test_double e q p) = (\<lambda>rq w. (p, Suc w))"
  by (simp add: test_double_def)

lemma test_double_stdout: "stdout_write (test_double e q p) l = Inr ()"
  by (simp add: test_double_def)





lemma requests_post_closed_stdout:
  "requests_post (closed_stdout sv) = requests_post sv"
  by (simp add: requests_post_def closed_stdout_def fun_eq_iff)


lemma search_three_matches:
  "search_knowledge (test_double (Inr v) (Inr three_matches) p) m k st =
     (Inr [\<lparr>title = ascii ''Latte'', content = ascii ''45 baht'', score = 9 / 10\<rparr>,
           \<lparr>title = ascii ''Mocha'', content = ascii ''55 baht'', score = 9 / 10\<rparr>,
           \<lparr>title = ascii ''Hours'', content = ascii ''8-20'', score = 9 / 10\<rparr>],
      \<lparr>world = Suc (Suc (world st)),
       calls = calls st @ [EncodeCall m, QueryCall v k]\<rparr>)"
  by (simp add: search_knowledge_def embedder_encode_def index_query_def test_double_def
      three_matches_def stored_match_def get_or_empty_def ascii_def)

lemma search_no_matches:
  "search_knowledge (test_double (Inr v) (Inr no_matches) p) m k st =
     (Inr [], \<lparr>world = Suc (Suc (world st)),
       calls = calls st @ [EncodeCall m, QueryCall v k]\<rparr>)"
  by (simp add: search_knowledge_def embedder_encode_def index_query_def test_double_def
      no_matches_def)

lemma search_query_raises:
  "search_knowledge (test_double (Inr v) (Inl e) p) m k st =
     (Inl e, \<lparr>world = Suc (Suc (world st)),
       calls = calls st @ [EncodeCall m, QueryCall v k]\<rparr>)"
  by (simp add: search_knowledge_def embedder_encode_def index_query_def test_double_def)


lemma message_content_completion: "message_content (completion code s) = Inr (strip s)"
  by (simp add: message_content_def completion_def and_then_def ascii_def)

lemma status_code_completion: "status_code (completion code s) = code"
  by (simp add: completion_def)

lemma strip_examples:
  "strip (ascii '' 45 baht  '') = ascii ''45 baht''"
  "strip (ascii ''45 baht'') = ascii ''45 baht''"
  "ascii ''45 baht'' \<noteq> []"
  "strip [32, 10, 9] = []"
  by (simp_all add: strip_def isspace_def ascii_def)

lemma run_three_matches:
  "fst (process_message cfg (test_double (Inr v) (Inr three_matches) p) m st) =
     Inr \<lparr>reply =
            (let answer =
               (case p of
                  Inl e \<Rightarrow> LLM_ERROR_TEXT
                | Inr resp \<Rightarrow>
                    if status_code resp = 200
                    then (case message_content resp of Inl e \<Rightarrow> LLM_ERROR_TEXT | Inr a \<Rightarrow> a)
                    else HTTP_ERROR_TEXT)
             in if strip answer = [] then EMPTY_ANSWER_TEXT else answer),
          quick_replies = [MENU_DRINKS, MENU_FOOD, OPENING_HOURS, ADDRESS],
          sources = Some [ascii ''Latte'', ascii ''Mocha'']\<rparr>"
  by (simp add: process_message_def process_message_try_def search_three_matches
      generate_response_def call_openrouter_def call_openrouter_try_def requests_post_def
      print_line_def test_double_post test_double_stdout Let_def split: sum.splits)

subsection \<open>The claims about retrieval\<close>

text \<open>
  C2. When the embedder returns a vector and the index query returns a result with no
  matches, \<open>process_message\<close> returns the no-knowledge reply: its fixed text and two
  quick replies. The calls made are the one to the embedder and the one to the index;
  the completion endpoint is not called.
\<close>

theorem empty_result_gives_no_knowledge:
  assumes "embedder_encode sv m st = (Inr v, st1)"
    and "index_query sv v 4 st1 = (Inr results, st2)"
    and "matches results = []"
  shows "process_message cfg sv m st = (Inr NO_KNOWLEDGE_REPLY, st2) \<and>
     reply NO_KNOWLEDGE_REPLY = NO_KNOWLEDGE_TEXT \<and>
     length (quick_replies NO_KNOWLEDGE_REPLY) = 2 \<and>
     calls st2 = calls st @ [EncodeCall m, QueryCall v 4] \<and>
     post_count (calls st2) = post_count (calls st)"
proof -
  from assms have "search_knowledge sv m 4 st = (Inr [], st2)"
    by (simp add: search_knowledge_query_returned)
  then have "process_message cfg sv m st = (Inr NO_KNOWLEDGE_REPLY, st2)"
    by (rule process_message_no_documents)
  moreover from assms(1,2) have c: "calls st2 = calls st @ [EncodeCall m, QueryCall v 4]"
    by (simp add: embedder_encode_calls index_query_calls)
  moreover from c have "post_count (calls st2) = post_count (calls st)"
    by (simp add: post_count_def)
  ultimately show ?thesis by (simp add: NO_KNOWLEDGE_REPLY_def)
qed

text \<open>
  C2 at a test double whose index has no match and whose completion endpoint would
  answer: the endpoint is not called.
\<close>

theorem empty_result_gives_no_knowledge_witness:
  "process_message example_config
     (test_double (Inr example_vector) (Inr no_matches) (Inr (completion 200 (ascii ''45 baht''))))
     latte_question initial_state =
     (Inr NO_KNOWLEDGE_REPLY,
      \<lparr>world = 2, calls = [EncodeCall latte_question, QueryCall example_vector 4]\<rparr>) \<and>
   post_count [EncodeCall latte_question, QueryCall example_vector 4] = 0"
proof -
  let ?sv = "test_double (Inr example_vector) (Inr no_matches)
      (Inr (completion 200 (ascii ''45 baht'')))"
  let ?st1 = "\<lparr>world = 1, calls = [EncodeCall latte_question]\<rparr> :: nat state"
  let ?st2 = "\<lparr>world = 2, calls = [EncodeCall latte_question, QueryCall example_vector 4]\<rparr>
      :: nat state"
  have a: "embedder_encode ?sv latte_question initial_state = (Inr example_vector, ?st1)"
    by (simp add: embedder_encode_def test_double_def initial_state_def)
  have b: "index_query ?sv example_vector 4 ?st1 = (Inr no_matches, ?st2)"
    by (simp add: index_query_def test_double_def)
  have c: "matches no_matches = []"
    by (simp add: no_matches_def)
  from empty_result_gives_no_knowledge [OF a b c, of example_config]
  show ?thesis
    by (simp add: post_count_def)
qed

text \<open>
  C3, amended. When the embedder returns a vector and the index query raises, the
  exception leaves \<open>search_knowledge\<close>, which has no handler, and is caught by the handler
  of \<open>process_message\<close>. The handler prints the exception; when that \<open>print\<close> returns,
  the reply is the pipeline-error reply. The completion endpoint is not called.
\<close>

theorem retrieval_error_gives_pipeline_error:
  assumes "embedder_encode sv m st = (Inr v, st1)"
    and "index_query sv v 4 st1 = (Inl e, st2)"
    and "stdout_write sv (RAG_Error e) = Inr ()"
  shows "search_knowledge sv m 4 st = (Inl e, st2) \<and>
     process_message cfg sv m st =
       (Inr PIPELINE_ERROR_REPLY,
        \<lparr>world = world st2, calls = calls st2 @ [PrintCall (RAG_Error e)]\<rparr>) \<and>
     calls st2 = calls st @ [EncodeCall m, QueryCall v 4] \<and>
     post_count (calls st2 @ [PrintCall (RAG_Error e)]) = post_count (calls st)"
proof -
  from assms(1,2) have sk: "search_knowledge sv m 4 st = (Inl e, st2)"
    by (rule search_knowledge_query_raised)
  then have "process_message_try cfg sv m st = (Inl e, st2)"
    by (simp add: process_message_try_def)
  with assms(3) have "process_message cfg sv m st =
       (Inr PIPELINE_ERROR_REPLY,
        \<lparr>world = world st2, calls = calls st2 @ [PrintCall (RAG_Error e)]\<rparr>)"
    by (simp add: process_message_try_raised)
  moreover from assms(1,2) have c: "calls st2 = calls st @ [EncodeCall m, QueryCall v 4]"
    by (simp add: embedder_encode_calls index_query_calls)
  moreover from c have "post_count (calls st2 @ [PrintCall (RAG_Error e)]) = post_count (calls st)"
    by (simp add: post_count_def)
  ultimately show ?thesis using sk by simp
qed

text \<open>C3, amended, at a test double whose index query raises a connection error.\<close>

theorem retrieval_error_gives_pipeline_error_witness:
  "process_message example_config
     (test_double (Inr example_vector) (Inl (LibraryError ''connection refused''))
        (Inr (completion 200 (ascii ''45 baht''))))
     latte_question initial_state =
     (Inr PIPELINE_ERROR_REPLY,
      \<lparr>world = 2,
       calls = [EncodeCall latte_question, QueryCall example_vector 4,
                PrintCall (RAG_Error (LibraryError ''connection refused''))]\<rparr>)"
proof -
  let ?sv = "test_double (Inr example_vector) (Inl (LibraryError ''connection refused''))
        (Inr (completion 200 (ascii ''45 baht'')))"
  let ?st1 = "\<lparr>world = 1, calls = [EncodeCall latte_question]\<rparr> :: nat state"
  let ?st2 = "\<lparr>world = 2, calls = [EncodeCall latte_question, QueryCall example_vector 4]\<rparr>
      :: nat state"
  have a: "embedder_encode ?sv latte_question initial_state = (Inr example_vector, ?st1)"
    by (simp add: embedder_encode_def test_double_def initial_state_def)
  have b: "index_query ?sv example_vector 4 ?st1 =
      (Inl (LibraryError ''connection refused''), ?st2)"
    by (simp add: index_query_def test_double_def)
  have c: "stdout_write ?sv (RAG_Error (LibraryError ''connection refused'')) = Inr ()"
    by (rule test_double_stdout)
  from retrieval_error_gives_pipeline_error [OF a b c, of example_config]
  show ?thesis by simp
qed

text \<open>
  C3 as stated does not hold: with an index query that raises, the reply is the
  pipeline-error reply, whose text and quick replies are not those of the no-knowledge
  reply.
\<close>

theorem retrieval_error_counterexample:
  "fst (process_message example_config
     (test_double (Inr example_vector) (Inl (LibraryError ''connection refused''))
        (Inr (completion 200 (ascii ''45 baht''))))
     latte_question initial_state) = Inr PIPELINE_ERROR_REPLY \<and>
   reply PIPELINE_ERROR_REPLY \<noteq> reply NO_KNOWLEDGE_REPLY \<and>
   quick_replies PIPELINE_ERROR_REPLY \<noteq> quick_replies NO_KNOWLEDGE_REPLY"
  by (simp add: process_message_def process_message_try_def search_query_raises
      print_line_def test_double_stdout
      PIPELINE_ERROR_REPLY_def NO_KNOWLEDGE_REPLY_def PIPELINE_ERROR_TEXT_def
      NO_KNOWLEDGE_TEXT_def MENU_def MENU_DRINKS_def)

subsection \<open>A print that raises inside a handler\<close>




subsection \<open>The claims about the replies that are returned\<close>

text \<open>
  C4, amended. Every reply text that \<open>process_message\<close> returns is one of four fixed
  texts (no knowledge, pipeline error, the text for an exception in the completion
  call, which is also the text for an empty answer, and the text for a status other
  than 200), or it is the stripped message content of a completion with status 200,
  requested with the prompt built from the retrieved documents. The message of an
  exception is never part of the reply.
\<close>

theorem reply_is_answer_or_fixed_text:
  assumes "process_message cfg sv m st = (Inr r, st1)"
  shows "reply r \<in> {NO_KNOWLEDGE_TEXT, PIPELINE_ERROR_TEXT, LLM_ERROR_TEXT, HTTP_ERROR_TEXT} \<or>
     (\<exists>docs st2 resp.
        search_knowledge sv m 4 st = (Inr docs, st2) \<and> docs \<noteq> [] \<and>
        requests_post sv (openrouter_request cfg (build_prompt m docs)) st2 = (Inr resp, st1) \<and>
        status_code resp = 200 \<and> message_content resp = Inr (reply r))"
proof -
  from process_message_returned [OF assms]
  consider (body) "process_message_try cfg sv m st = (Inr r, st1)"
    | (handler) "r = PIPELINE_ERROR_REPLY"
    by blast
  then show ?thesis
  proof cases
    case handler
    then show ?thesis by (simp add: PIPELINE_ERROR_REPLY_def)
  next
    case body
    from process_message_try_returned [OF body]
    consider (none) "r = NO_KNOWLEDGE_REPLY"
      | (some) docs st2 answer where
          "search_knowledge sv m 4 st = (Inr docs, st2)" "docs \<noteq> []"
          "generate_response cfg sv m docs st2 = (Inr answer, st1)"
          "r = \<lparr>reply = (if strip answer = [] then EMPTY_ANSWER_TEXT else answer),
                quick_replies = [MENU_DRINKS, MENU_FOOD, OPENING_HOURS, ADDRESS],
                sources = Some (map title (take 2 docs))\<rparr>"
      by blast
    then show ?thesis
    proof cases
      case none
      then show ?thesis by (simp add: NO_KNOWLEDGE_REPLY_def)
    next
      case some
      from some(3) have co: "call_openrouter cfg sv (build_prompt m docs) st2 = (Inr answer, st1)"
        by (simp add: generate_response_def)
      from some(4) have rr: "reply r = (if strip answer = [] then EMPTY_ANSWER_TEXT else answer)"
        by simp
      show ?thesis
      proof (cases "strip answer = []")
        case True
        with rr show ?thesis by (simp add: EMPTY_ANSWER_TEXT_eq)
      next
        case False
        with rr have ra: "reply r = answer" by simp
        from call_openrouter_returned [OF co]
        consider "answer = LLM_ERROR_TEXT" | "answer = HTTP_ERROR_TEXT"
          | resp where
              "requests_post sv (openrouter_request cfg (build_prompt m docs)) st2 = (Inr resp, st1)"
              "status_code resp = 200" "message_content resp = Inr answer"
          by blast
        then show ?thesis
        proof cases
          case 1
          with ra show ?thesis by simp
        next
          case 2
          with ra show ?thesis by simp
        next
          case 3
          with ra some(1,2) show ?thesis by simp
        qed
      qed
    qed
  qed
qed

text \<open>C4 at a test double whose completion has status 200: the reply is the stripped content.\<close>

theorem reply_is_answer_or_fixed_text_witness:
  "fst (process_message example_config
     (test_double (Inr example_vector) (Inr three_matches)
        (Inr (completion 200 (ascii '' 45 baht  ''))))
     latte_question initial_state) =
   Inr \<lparr>reply = ascii ''45 baht'',
        quick_replies = [MENU_DRINKS, MENU_FOOD, OPENING_HOURS, ADDRESS],
        sources = Some [ascii ''Latte'', ascii ''Mocha'']\<rparr>"
proof -
  let ?sv = "test_double (Inr example_vector) (Inr three_matches)
        (Inr (completion 200 (ascii '' 45 baht  '')))"
  let ?r = "\<lparr>reply = ascii ''45 baht'',
        quick_replies = [MENU_DRINKS, MENU_FOOD, OPENING_HOURS, ADDRESS],
        sources = Some [ascii ''Latte'', ascii ''Mocha'']\<rparr>"
  have result: "fst (process_message example_config ?sv latte_question initial_state) = Inr ?r"
    by (simp add: run_three_matches message_content_completion status_code_completion
        strip_examples)
  then have run: "process_message example_config ?sv latte_question initial_state =
      (Inr ?r, snd (process_message example_config ?sv latte_question initial_state))"
    by (simp add: prod_eq_iff)
  from reply_is_answer_or_fixed_text [OF run] result show ?thesis by blast
qed

text \<open>
  C4 as stated ("one of exactly three fixed texts") does not hold: four runs against
  test doubles, none of which produces an answer, give four different reply texts.
\<close>

theorem four_fixed_texts_counterexample:
  "fst (process_message example_config
     (test_double (Inr example_vector) (Inr no_matches) (Inl (LibraryError ''timed out'')))
     latte_question initial_state) = Inr NO_KNOWLEDGE_REPLY \<and>
   fst (process_message example_config
     (test_double (Inr example_vector) (Inl (LibraryError ''connection refused''))
        (Inl (LibraryError ''timed out'')))
     latte_question initial_state) = Inr PIPELINE_ERROR_REPLY \<and>
   fst (process_message example_config
     (test_double (Inr example_vector) (Inr three_matches) (Inl (LibraryError ''timed out'')))
     latte_question initial_state) =
     Inr \<lparr>reply = LLM_ERROR_TEXT,
          quick_replies = [MENU_DRINKS, MENU_FOOD, OPENING_HOURS, ADDRESS],
          sources = Some [ascii ''Latte'', ascii ''Mocha'']\<rparr> \<and>
   fst (process_message example_config
     (test_double (Inr example_vector) (Inr three_matches)
        (Inr (completion 500 (ascii ''Internal Server Error''))))
     latte_question initial_state) =
     Inr \<lparr>reply = HTTP_ERROR_TEXT,
          quick_replies = [MENU_DRINKS, MENU_FOOD, OPENING_HOURS, ADDRESS],
          sources = Some [ascii ''Latte'', ascii ''Mocha'']\<rparr> \<and>
   reply NO_KNOWLEDGE_REPLY = NO_KNOWLEDGE_TEXT \<and>
   reply PIPELINE_ERROR_REPLY = PIPELINE_ERROR_TEXT \<and>
   distinct [NO_KNOWLEDGE_TEXT, PIPELINE_ERROR_TEXT, LLM_ERROR_TEXT, HTTP_ERROR_TEXT]"
proof -
  have a: "fst (process_message example_config
     (test_double (Inr example_vector) (Inr no_matches) (Inl (LibraryError ''timed out'')))
     latte_question initial_state) = Inr NO_KNOWLEDGE_REPLY"
    by (simp add: process_message_def process_message_try_def search_no_matches)
  have b: "fst (process_message example_config
     (test_double (Inr example_vector) (Inl (LibraryError ''connection refused''))
        (Inl (LibraryError ''timed out'')))
     latte_question initial_state) = Inr PIPELINE_ERROR_REPLY"
    by (simp add: process_message_def process_message_try_def search_query_raises
        print_line_def test_double_stdout)
  have c: "fst (process_message example_config
     (test_double (Inr example_vector) (Inr three_matches) (Inl (LibraryError ''timed out'')))
     latte_question initial_state) =
     Inr \<lparr>reply = LLM_ERROR_TEXT,
          quick_replies = [MENU_DRINKS, MENU_FOOD, OPENING_HOURS, ADDRESS],
          sources = Some [ascii ''Latte'', ascii ''Mocha'']\<rparr>"
    by (simp add: run_three_matches strip_LLM_ERROR_TEXT texts_nonempty)
  have d: "fst (process_message example_config
     (test_double (Inr example_vector) (Inr three_matches)
        (Inr (completion 500 (ascii ''Internal Server Error''))))
     latte_question initial_state) =
     Inr \<lparr>reply = HTTP_ERROR_TEXT,
          quick_replies = [MENU_DRINKS, MENU_FOOD, OPENING_HOURS, ADDRESS],
          sources = Some [ascii ''Latte'', ascii ''Mocha'']\<rparr>"
    by (simp add: run_three_matches strip_HTTP_ERROR_TEXT texts_nonempty status_code_completion)
  from a b c d texts_distinct show ?thesis
    by (simp add: NO_KNOWLEDGE_REPLY_def PIPELINE_ERROR_REPLY_def)
qed

text \<open>
  C7. When retrieval returned documents and the generator returned, so that the third
  return statement is reached, the sources of the reply are the titles of the first
  two retrieved documents, in order: at most two entries, and exactly two when two or
  more documents were retrieved.
\<close>

theorem sources_are_first_two_titles:
  assumes "search_knowledge sv m 4 st = (Inr docs, st1)" and "docs \<noteq> []"
    and "generate_response cfg sv m docs st1 = (Inr answer, st2)"
  shows "\<exists>r ss. process_message cfg sv m st = (Inr r, st2) \<and>
     sources r = Some ss \<and> ss = map title (take 2 docs) \<and>
     length ss \<le> 2 \<and> length ss = min 2 (length docs)"
proof -
  from assms have "process_message cfg sv m st =
      (Inr \<lparr>reply = (if strip answer = [] then EMPTY_ANSWER_TEXT else answer),
            quick_replies = [MENU_DRINKS, MENU_FOOD, OPENING_HOURS, ADDRESS],
            sources = Some (map title (take 2 docs))\<rparr>, st2)"
    by (rule process_message_documents)
  then show ?thesis by (simp add: min.commute)
qed

text \<open>C7 at a test double whose index returns three matches: two sources.\<close>

theorem sources_are_first_two_titles_witness:
  "fst (search_knowledge
     (test_double (Inr example_vector) (Inr three_matches)
        (Inr (completion 200 (ascii '' 45 baht  ''))))
     latte_question 4 initial_state) =
     Inr [\<lparr>title = ascii ''Latte'', content = ascii ''45 baht'', score = 9 / 10\<rparr>,
          \<lparr>title = ascii ''Mocha'', content = ascii ''55 baht'', score = 9 / 10\<rparr>,
          \<lparr>title = ascii ''Hours'', content = ascii ''8-20'', score = 9 / 10\<rparr>] \<and>
   fst (process_message example_config
     (test_double (Inr example_vector) (Inr three_matches)
        (Inr (completion 200 (ascii '' 45 baht  ''))))
     latte_question initial_state) =
     Inr \<lparr>reply = ascii ''45 baht'',
          quick_replies = [MENU_DRINKS, MENU_FOOD, OPENING_HOURS, ADDRESS],
          sources = Some [ascii ''Latte'', ascii ''Mocha'']\<rparr>"
proof -
  let ?sv = "test_double (Inr example_vector) (Inr three_matches)
        (Inr (completion 200 (ascii '' 45 baht  '')))"
  let ?docs = "[\<lparr>title = ascii ''Latte'', content = ascii ''45 baht'', score = 9 / 10\<rparr>,
           \<lparr>title = ascii ''Mocha'', content = ascii ''55 baht'', score = 9 / 10\<rparr>,
           \<lparr>title = ascii ''Hours'', content = ascii ''8-20'', score = 9 / 10\<rparr>]"
  let ?st1 = "\<lparr>world = Suc (Suc (world initial_state)),
       calls = calls initial_state @ [EncodeCall latte_question, QueryCall example_vector 4]\<rparr>"
  have sk: "search_knowledge ?sv latte_question 4 initial_state = (Inr ?docs, ?st1)"
    by (rule search_three_matches)
  have docs: "?docs \<noteq> []" by simp
  have gen: "generate_response example_config ?sv latte_question ?docs ?st1 =
      (Inr (ascii ''45 baht''),
       snd (requests_post ?sv
         (openrouter_request example_config (build_prompt latte_question ?docs)) ?st1))"
    unfolding generate_response_def
    by (rule call_openrouter_answer [where resp = "completion 200 (ascii '' 45 baht  '')"])
      (simp_all add: requests_post_def test_double_post status_code_completion
        message_content_completion strip_examples)
  from sources_are_first_two_titles [OF sk docs gen] sk
  show ?thesis
    by (simp add: run_three_matches message_content_completion status_code_completion
        strip_examples)
qed

text \<open>
  C10. Of the replies that \<open>process_message\<close> returns, the one of the branch for an
  empty retrieval and the one of the exception handler have no sources; a reply has
  sources exactly when it comes from the third return statement, reached when
  retrieval returned at least one document and the generator returned.
\<close>

theorem fallback_replies_have_no_sources:
  assumes "process_message cfg sv m st = (Inr r, st1)"
  shows "(\<forall>st2. search_knowledge sv m 4 st = (Inr [], st2) \<longrightarrow>
        r = NO_KNOWLEDGE_REPLY \<and> sources r = None) \<and>
     (\<forall>e st2. process_message_try cfg sv m st = (Inl e, st2) \<longrightarrow>
        r = PIPELINE_ERROR_REPLY \<and> sources r = None) \<and>
     (sources r \<noteq> None \<longleftrightarrow>
        (\<exists>docs st2 answer. search_knowledge sv m 4 st = (Inr docs, st2) \<and> docs \<noteq> [] \<and>
           generate_response cfg sv m docs st2 = (Inr answer, st1)))"
proof -
  from process_message_returned [OF assms]
  consider (body) "process_message_try cfg sv m st = (Inr r, st1)"
    | (handler) e st0 where "process_message_try cfg sv m st = (Inl e, st0)"
        "r = PIPELINE_ERROR_REPLY"
    by blast
  then show ?thesis
  proof cases
    case handler
    from handler(1) have "\<not> (\<exists>docs st2 answer st3.
        search_knowledge sv m 4 st = (Inr docs, st2) \<and>
        generate_response cfg sv m docs st2 = (Inr answer, st3))"
      by (auto simp: process_message_try_def Let_def split: if_splits)
    moreover from handler(1) have "\<And>st2. search_knowledge sv m 4 st \<noteq> (Inr [], st2)"
      by (auto simp: process_message_try_def)
    ultimately show ?thesis using handler
      by (auto simp: PIPELINE_ERROR_REPLY_def)
  next
    case body
    from process_message_try_returned [OF body]
    consider (none) "search_knowledge sv m 4 st = (Inr [], st1)" "r = NO_KNOWLEDGE_REPLY"
      | (some) docs st2 answer where
          "search_knowledge sv m 4 st = (Inr docs, st2)" "docs \<noteq> []"
          "generate_response cfg sv m docs st2 = (Inr answer, st1)"
          "r = \<lparr>reply = (if strip answer = [] then EMPTY_ANSWER_TEXT else answer),
                quick_replies = [MENU_DRINKS, MENU_FOOD, OPENING_HOURS, ADDRESS],
                sources = Some (map title (take 2 docs))\<rparr>"
      by blast
    then show ?thesis
    proof cases
      case none
      with body show ?thesis by (auto simp: NO_KNOWLEDGE_REPLY_def)
    next
      case some
      with body show ?thesis by auto
    qed
  qed
qed

text \<open>
  C10 at three test doubles: no match, an index query that raises, and three matches
  with an answer.
\<close>

theorem fallback_replies_have_no_sources_witness:
  "fst (process_message example_config
     (test_double (Inr example_vector) (Inr no_matches) (Inr (completion 200 (ascii ''45 baht''))))
     latte_question initial_state) = Inr NO_KNOWLEDGE_REPLY \<and>
   sources NO_KNOWLEDGE_REPLY = None \<and>
   fst (process_message example_config
     (test_double (Inr example_vector) (Inl (LibraryError ''connection refused''))
        (Inr (completion 200 (ascii ''45 baht''))))
     latte_question initial_state) = Inr PIPELINE_ERROR_REPLY \<and>
   sources PIPELINE_ERROR_REPLY = None \<and>
   fst (process_message example_config
     (test_double (Inr example_vector) (Inr three_matches)
        (Inr (completion 200 (ascii ''45 baht''))))
     latte_question initial_state) =
     Inr \<lparr>reply = ascii ''45 baht'',
          quick_replies = [MENU_DRINKS, MENU_FOOD, OPENING_HOURS, ADDRESS],
          sources = Some [ascii ''Latte'', ascii ''Mocha'']\<rparr>"
proof -
  let ?ok = "Inr (completion 200 (ascii ''45 baht'')) :: exn + response"
  let ?sv1 = "test_double (Inr example_vector) (Inr no_matches) ?ok"
  let ?sv2 = "test_double (Inr example_vector) (Inl (LibraryError ''connection refused'')) ?ok"
  let ?st2 = "\<lparr>world = Suc (Suc (world initial_state)),
       calls = calls initial_state @ [EncodeCall latte_question, QueryCall example_vector 4]\<rparr>"
  have a: "search_knowledge ?sv1 latte_question 4 initial_state = (Inr [], ?st2)"
    by (rule search_no_matches)
  then have run1: "process_message example_config ?sv1 latte_question initial_state =
      (Inr NO_KNOWLEDGE_REPLY, ?st2)"
    by (rule process_message_no_documents)
  from fallback_replies_have_no_sources [OF run1] a
  have first: "sources NO_KNOWLEDGE_REPLY = None" by blast
  have b: "process_message_try example_config ?sv2 latte_question initial_state =
      (Inl (LibraryError ''connection refused''), ?st2)"
    by (simp add: process_message_try_def search_query_raises)
  then have run2: "process_message example_config ?sv2 latte_question initial_state =
      (Inr PIPELINE_ERROR_REPLY,
       \<lparr>world = world ?st2,
        calls = calls ?st2 @ [PrintCall (RAG_Error (LibraryError ''connection refused''))]\<rparr>)"
    by (simp add: process_message_try_raised test_double_stdout)
  from fallback_replies_have_no_sources [OF run2] b
  have second: "sources PIPELINE_ERROR_REPLY = None" by blast
  have third: "fst (process_message example_config
      (test_double (Inr example_vector) (Inr three_matches) ?ok) latte_question initial_state) =
      Inr \<lparr>reply = ascii ''45 baht'',
          quick_replies = [MENU_DRINKS, MENU_FOOD, OPENING_HOURS, ADDRESS],
          sources = Some [ascii ''Latte'', ascii ''Mocha'']\<rparr>"
    by (simp add: run_three_matches message_content_completion status_code_completion
        strip_examples)
  from run1 run2 first second third show ?thesis by simp
qed

subsection \<open>What the result of a step depends on\<close>

lemma fst_embedder_encode: "fst (embedder_encode sv t st) = fst (encode sv t (world st))"
  by (simp add: embedder_encode_def split: prod.splits)

lemma fst_index_query: "fst (index_query sv v k st) = fst (query sv v k (world st))"
  by (simp add: index_query_def split: prod.splits)

lemma fst_requests_post: "fst (requests_post sv rq st) = fst (post sv rq (world st))"
  by (simp add: requests_post_def split: prod.splits)

lemma fst_search_knowledge:
  "fst (search_knowledge sv m k st) =
     (case fst (embedder_encode sv m st) of
        Inl e \<Rightarrow> Inl e
      | Inr v \<Rightarrow>
          (case fst (index_query sv v k (snd (embedder_encode sv m st))) of
             Inl e \<Rightarrow> Inl e
           | Inr results \<Rightarrow> append_documents (matches results) []))"
  by (simp add: search_knowledge_def split: prod.splits sum.splits)

lemma fst_call_openrouter_try:
  "fst (call_openrouter_try cfg sv p st) =
     (case fst (requests_post sv (openrouter_request cfg p) st) of
        Inl e \<Rightarrow> Inl e
      | Inr resp \<Rightarrow>
          if status_code resp = 200 then message_content resp
          else (case stdout_write sv (OpenRouter_Error (status_code resp)) of
                  Inl e \<Rightarrow> Inl e
                | Inr u \<Rightarrow> Inr HTTP_ERROR_TEXT))"
  by (simp add: call_openrouter_try_def print_line_def split: prod.splits sum.splits)

lemma fst_call_openrouter:
  "fst (call_openrouter cfg sv p st) =
     (case fst (call_openrouter_try cfg sv p st) of
        Inl e \<Rightarrow>
          (case stdout_write sv (LLM_Error e) of
             Inl e' \<Rightarrow> Inl e'
           | Inr u \<Rightarrow> Inr LLM_ERROR_TEXT)
      | Inr a \<Rightarrow> Inr a)"
  by (simp add: call_openrouter_def print_line_def split: prod.splits sum.splits)

lemma fst_process_message_try:
  "fst (process_message_try cfg sv m st) =
     (case fst (search_knowledge sv m 4 st) of
        Inl e \<Rightarrow> Inl e
      | Inr docs \<Rightarrow>
          if docs = [] then Inr NO_KNOWLEDGE_REPLY
          else
            (case fst (call_openrouter cfg sv (build_prompt m docs)
                    (snd (search_knowledge sv m 4 st))) of
               Inl e \<Rightarrow> Inl e
             | Inr answer \<Rightarrow>
                 Inr \<lparr>reply = (if strip answer = [] then EMPTY_ANSWER_TEXT else answer),
                      quick_replies = [MENU_DRINKS, MENU_FOOD, OPENING_HOURS, ADDRESS],
                      sources = Some (map title (take 2 docs))\<rparr>))"
  by (simp add: process_message_try_def generate_response_def Let_def
      split: prod.splits sum.splits)

lemma fst_process_message:
  "fst (process_message cfg sv m st) =
     (case fst (process_message_try cfg sv m st) of
        Inl e \<Rightarrow>
          (case stdout_write sv (RAG_Error e) of
             Inl e' \<Rightarrow> Inl e'
           | Inr u \<Rightarrow> Inr PIPELINE_ERROR_REPLY)
      | Inr r \<Rightarrow> Inr r)"
  by (simp add: process_message_def print_line_def split: prod.splits sum.splits)

subsection \<open>Determinism\<close>

text \<open>
  C9. Let the three services be deterministic: the outcome of a call depends on its
  argument and not on the world. Then the result of \<open>process_message\<close> for a message
  is the same in any two states; in particular a second call, made in the state the
  first call left, returns the same reply as the first.
\<close>

theorem process_message_deterministic:
  assumes enc: "\<And>t w w'. fst (encode sv t w) = fst (encode sv t w')"
    and qry: "\<And>v k w w'. fst (query sv v k w) = fst (query sv v k w')"
    and pst: "\<And>rq w w'. fst (post sv rq w) = fst (post sv rq w')"
  shows "fst (process_message cfg sv m st) = fst (process_message cfg sv m st') \<and>
     fst (process_message cfg sv m (snd (process_message cfg sv m st))) =
       fst (process_message cfg sv m st)"
proof -
  have e: "fst (embedder_encode sv t s) = fst (embedder_encode sv t s')" for t s s'
    unfolding fst_embedder_encode by (rule enc)
  have q: "fst (index_query sv v k s) = fst (index_query sv v k s')" for v k s s'
    unfolding fst_index_query by (rule qry)
  have p: "fst (requests_post sv rq s) = fst (requests_post sv rq s')" for rq s s'
    unfolding fst_requests_post by (rule pst)
  have sk: "fst (search_knowledge sv m k s) = fst (search_knowledge sv m k s')" for k s s'
  proof -
    have iq: "fst (index_query sv v k (snd (embedder_encode sv m s))) =
        fst (index_query sv v k (snd (embedder_encode sv m s')))" for v
      by (rule q)
    show ?thesis
      unfolding fst_search_knowledge using e [of m s s']
      by (simp add: iq cong: sum.case_cong)
  qed
  have ct: "fst (call_openrouter_try cfg sv pr s) = fst (call_openrouter_try cfg sv pr s')"
    for pr s s'
    unfolding fst_call_openrouter_try
    using p [of "openrouter_request cfg pr" s s'] by simp
  have co: "fst (call_openrouter cfg sv pr s) = fst (call_openrouter cfg sv pr s')" for pr s s'
    unfolding fst_call_openrouter
    using ct [of pr s s'] by simp
  have pt: "fst (process_message_try cfg sv m s) = fst (process_message_try cfg sv m s')"
    for s s'
  proof -
    have c: "fst (call_openrouter cfg sv (build_prompt m docs) (snd (search_knowledge sv m 4 s))) =
        fst (call_openrouter cfg sv (build_prompt m docs) (snd (search_knowledge sv m 4 s')))"
      for docs by (rule co)
    show ?thesis
      unfolding fst_process_message_try using sk [of 4 s s']
      by (simp add: c cong: sum.case_cong if_cong)
  qed
  have pm: "fst (process_message cfg sv m s) = fst (process_message cfg sv m s')" for s s'
    unfolding fst_process_message using pt [of s s'] by simp
  from pm [of st st'] pm [of "snd (process_message cfg sv m st)" st] show ?thesis by simp
qed

text \<open>
  C9 at the test double, whose world changes with every call while its outcomes are
  fixed: the second call starts in another state and returns the same reply.
\<close>

theorem process_message_deterministic_witness:
  "snd (process_message example_config
     (test_double (Inr example_vector) (Inr three_matches)
        (Inr (completion 200 (ascii '' 45 baht  ''))))
     latte_question initial_state) \<noteq> initial_state \<and>
   fst (process_message example_config
     (test_double (Inr example_vector) (Inr three_matches)
        (Inr (completion 200 (ascii '' 45 baht  ''))))
     latte_question
     (snd (process_message example_config
       (test_double (Inr example_vector) (Inr three_matches)
          (Inr (completion 200 (ascii '' 45 baht  ''))))
       latte_question initial_state))) =
   fst (process_message example_config
     (test_double (Inr example_vector) (Inr three_matches)
        (Inr (completion 200 (ascii '' 45 baht  ''))))
     latte_question initial_state) \<and>
   fst (process_message example_config
     (test_double (Inr example_vector) (Inr three_matches)
        (Inr (completion 200 (ascii '' 45 baht  ''))))
     latte_question initial_state) =
     Inr \<lparr>reply = ascii ''45 baht'',
          quick_replies = [MENU_DRINKS, MENU_FOOD, OPENING_HOURS, ADDRESS],
          sources = Some [ascii ''Latte'', ascii ''Mocha'']\<rparr>"
proof -
  let ?sv = "test_double (Inr example_vector) (Inr three_matches)
        (Inr (completion 200 (ascii '' 45 baht  '')))"
  have enc: "\<And>t w w'. fst (encode ?sv t w) = fst (encode ?sv t w')"
    and qry: "\<And>v k w w'. fst (query ?sv v k w) = fst (query ?sv v k w')"
    and pst: "\<And>rq w w'. fst (post ?sv rq w) = fst (post ?sv rq w')"
    by (simp_all add: test_double_def)
  have moved: "calls (snd (process_message example_config ?sv latte_question initial_state)) \<noteq> []"
    by (simp add: process_message_def process_message_try_def search_three_matches
        generate_response_def call_openrouter_def call_openrouter_try_def requests_post_def
        print_line_def test_double_post test_double_stdout split: sum.splits)
  have "calls initial_state = []" by (simp add: initial_state_def)
  with moved have changed:
    "snd (process_message example_config ?sv latte_question initial_state) \<noteq> initial_state"
    by auto
  from process_message_deterministic [of ?sv example_config latte_question initial_state
      initial_state, OF enc qry pst] changed
  show ?thesis
    by (simp add: run_three_matches message_content_completion status_code_completion
        strip_examples)
qed

subsection \<open>With a standard output that accepts every line\<close>

text \<open>
  What \<open>process_message\<close> does when no \<open>print\<close> raises: it returns a reply for every
  message, the text of every reply is not empty, and a failure of the completion
  request gives the fixed text and the sources of the retrieved documents.
\<close>

lemma returned_reply_text_nonempty:
  assumes "process_message cfg sv m st = (Inr r, st1)"
  shows "reply r \<noteq> []"
proof -
  from process_message_returned [OF assms]
  consider (body) "process_message_try cfg sv m st = (Inr r, st1)"
    | (handler) "r = PIPELINE_ERROR_REPLY"
    by blast
  then show ?thesis
  proof cases
    case handler
    then show ?thesis by (simp add: PIPELINE_ERROR_REPLY_def texts_nonempty)
  next
    case body
    have kept: "(if strip answer = [] then EMPTY_ANSWER_TEXT else answer) \<noteq> []" for answer
      by (auto simp: texts_nonempty strip_def)
    from process_message_try_returned [OF body]
    consider "r = NO_KNOWLEDGE_REPLY"
      | answer where "reply r = (if strip answer = [] then EMPTY_ANSWER_TEXT else answer)"
      by auto
    then show ?thesis
    proof cases
      case 1
      then show ?thesis by (simp add: NO_KNOWLEDGE_REPLY_def texts_nonempty)
    next
      case 2
      with kept show ?thesis by simp
    qed
  qed
qed

lemma open_stdout_reply:
  assumes "\<And>l. stdout_write sv l = Inr ()"
  shows "\<exists>r st1. process_message cfg sv m st = (Inr r, st1) \<and> reply r \<noteq> [] \<and>
     (\<forall>e st0. process_message_try cfg sv m st = (Inl e, st0) \<longrightarrow> r = PIPELINE_ERROR_REPLY)"
proof -
  from process_message_returns [OF assms]
  obtain r st1 where run: "process_message cfg sv m st = (Inr r, st1)" by blast
  moreover from run have "reply r \<noteq> []" by (rule returned_reply_text_nonempty)
  moreover have "r = PIPELINE_ERROR_REPLY" if "process_message_try cfg sv m st = (Inl e, st0)"
    for e st0
    using that run assms by (simp add: process_message_try_raised)
  ultimately show ?thesis by blast
qed

lemma open_stdout_generation_failure:
  assumes "\<And>l. stdout_write sv l = Inr ()"
    and "search_knowledge sv m 4 st = (Inr docs, st1)" and "docs \<noteq> []"
    and "requests_post sv (openrouter_request cfg (build_prompt m docs)) st1 = (out, st2)"
    and "case out of Inl e \<Rightarrow> True
         | Inr resp \<Rightarrow> status_code resp < 200 \<or> 300 \<le> status_code resp"
  shows "\<exists>r st3. process_message cfg sv m st = (Inr r, st3) \<and>
     reply r = (case out of Inl e \<Rightarrow> LLM_ERROR_TEXT | Inr resp \<Rightarrow> HTTP_ERROR_TEXT) \<and>
     sources r = Some (map title (take 2 docs))"
proof -
  let ?p = "build_prompt m docs"
  let ?a = "case out of Inl e \<Rightarrow> LLM_ERROR_TEXT | Inr resp \<Rightarrow> HTTP_ERROR_TEXT"
  have "\<exists>st3. call_openrouter cfg sv ?p st1 = (Inr ?a, st3)"
  proof (cases out)
    case (Inl e)
    with assms(1,4) show ?thesis
      by (simp add: call_openrouter_def call_openrouter_try_def print_line_def)
  next
    case (Inr resp)
    with assms(5) have "status_code resp \<noteq> 200" by auto
    with assms(1,4) Inr show ?thesis
      by (simp add: call_openrouter_def call_openrouter_try_def print_line_def)
  qed
  then obtain st3 where co: "generate_response cfg sv m docs st1 = (Inr ?a, st3)"
    by (auto simp: generate_response_def)
  have keep: "strip ?a \<noteq> []"
    by (cases out) (simp_all add: strip_LLM_ERROR_TEXT strip_HTTP_ERROR_TEXT texts_nonempty)
  from process_message_documents [OF assms(2,3) co] keep show ?thesis by simp
qed

end
